theory Spec2Isabelle
  imports Main "HOL-Library.Multiset"
begin

section \<open>go-migrator: errors, strings and numbers\<close>

text \<open>
  Go's \<open>error\<close> values as the repository builds them: \<open>errors.New\<close> and
  \<open>fmt.Errorf\<close> without a wrapped cause give \<open>New msg\<close>; \<open>fmt.Errorf(prefix + "%w", err)\<close>
  gives \<open>Wrap prefix err\<close>; \<open>strconv.Atoi\<close> fails with a syntax or a range error that
  carries the offending text; a context reports \<open>Canceled\<close> or \<open>DeadlineExceeded\<close>.
\<close>

datatype error =
    New string
  | Wrap string error
  | ErrSyntax string
  | ErrRange string
  | Canceled
  | DeadlineExceeded

text \<open>\<open>strings.HasSuffix\<close> and \<open>strings.TrimSuffix\<close>.\<close>

definition HasSuffix :: "string \<Rightarrow> string \<Rightarrow> bool" where
  "HasSuffix s suffix \<longleftrightarrow>
     length suffix \<le> length s \<and> drop (length s - length suffix) s = suffix"

definition TrimSuffix :: "string \<Rightarrow> string \<Rightarrow> string" where
  "TrimSuffix s suffix =
     (if HasSuffix s suffix then take (length s - length suffix) s else s)"

text \<open>\<open>strings.Index\<close>: the position of the first occurrence of \<open>substr\<close>, or \<open>-1\<close>.\<close>

fun Index :: "string \<Rightarrow> string \<Rightarrow> int" where
  "Index [] substr = (if substr = [] then 0 else - 1)"
| "Index (c # s) substr =
     (if take (length substr) (c # s) = substr then 0
      else (let r = Index s substr in if r = - 1 then - 1 else r + 1))"

text \<open>
  \<open>strconv.Atoi\<close> on a 64-bit platform, for base 10. The text must not be empty; one
  leading sign is taken off and the rest must not be empty; \<open>ParseUint\<close> then reads the
  rest from the left: a byte that is not a decimal digit is a syntax error, and a value
  that leaves \<open>uint64\<close> is a range error, whichever comes first. At the end the value must
  fit \<open>int64\<close> with its sign. (Atoi's shortcut for texts of fewer than 19 bytes gives the
  same results.) The error carries the whole text.
\<close>

definition isDigit :: "char \<Rightarrow> bool" where
  "isDigit c \<longleftrightarrow> 48 \<le> (of_char c :: nat) \<and> (of_char c :: nat) \<le> 57"

definition digitVal :: "char \<Rightarrow> int" where
  "digitVal c = int (of_char c) - 48"

definition decimal :: "string \<Rightarrow> int" where
  "decimal ds = foldl (\<lambda>n c. n * 10 + digitVal c) 0 ds"

definition maxInt :: int where
  "maxInt = 9223372036854775807"

definition maxUint64 :: int where
  "maxUint64 = 18446744073709551615"

fun parseUintFrom :: "string \<Rightarrow> string \<Rightarrow> int \<Rightarrow> error + int" where
  "parseUintFrom s0 [] n = Inr n"
| "parseUintFrom s0 (c # s) n =
     (if \<not> isDigit c then Inl (ErrSyntax s0)
      else if maxUint64 div 10 + 1 \<le> n then Inl (ErrRange s0)
      else (let n1 = n * 10 + digitVal c
            in if maxUint64 < n1 then Inl (ErrRange s0) else parseUintFrom s0 s n1))"

definition Atoi :: "string \<Rightarrow> error + int" where
  "Atoi s0 =
     (if s0 = [] then Inl (ErrSyntax s0)
      else
        (let neg = (hd s0 = CHR ''-'');
             s = (if hd s0 = CHR ''+'' \<or> hd s0 = CHR ''-'' then tl s0 else s0)
         in if s = [] then Inl (ErrSyntax s0)
            else
              (case parseUintFrom s0 s 0 of
                 Inl err \<Rightarrow> Inl err
               | Inr un \<Rightarrow>
                   if \<not> neg \<and> maxInt + 1 \<le> un then Inl (ErrRange s0)
                   else if neg \<and> maxInt + 1 < un then Inl (ErrRange s0)
                   else Inr (if neg then - un else un))))"

text \<open>\<open>%d\<close> of \<open>fmt\<close>: the decimal text of an integer.\<close>

definition digitChar :: "nat \<Rightarrow> char" where
  "digitChar d = ''0123456789'' ! d"

fun showNat :: "nat \<Rightarrow> string" where
  "showNat n = (if n < 10 then [digitChar n] else showNat (n div 10) @ [digitChar (n mod 10)])"

declare showNat.simps [simp del]

definition showInt :: "int \<Rightarrow> string" where
  "showInt i = (if i < 0 then CHR ''-'' # showNat (nat (- i)) else showNat (nat i))"

section \<open>The migration loader\<close>

text \<open>
  \<open>Migration\<close> is the struct of the loader with fixtures (the file in which
  \<open>parseMigrationFile\<close> lives). Go's \<open>int\<close> is modelled by \<open>int\<close>; the only place
  where its 64-bit range matters is \<open>Atoi\<close>.
\<close>

record Migration =
  Version :: int
  Name :: string
  MigrationSQL :: string
  FixturesSQL :: string

text \<open>
  An \<open>fs.FS\<close> is an interface; the loader uses three of its operations, on the root
  directory only: \<open>fs.ReadDir(afs, ".")\<close>, \<open>fs.ReadFile(afs, name)\<close> and
  \<open>fs.Stat(afs, name)\<close> (of which only the error is inspected). A \<open>DirEntry\<close> is
  read through \<open>Name()\<close> and \<open>IsDir()\<close>.
\<close>

record DirEntry =
  EntryName :: string
  IsDir :: bool

record FS =
  ReadDir :: "error + DirEntry list"
  ReadFile :: "string \<Rightarrow> error + string"
  Stat :: "string \<Rightarrow> error option"

text \<open>
  \<open>parseMigrationFile\<close> returns \<open>(m, err)\<close>: \<open>Inr None\<close> is \<open>(nil, nil)\<close>, the entry
  is skipped; \<open>Inl err\<close> is a non-nil error (the partly filled \<open>m\<close> that Go returns with
  it is dropped by the only caller); \<open>Inr (Some m)\<close> is a loaded migration.
\<close>

definition parseMigrationFile :: "FS \<Rightarrow> DirEntry \<Rightarrow> bool \<Rightarrow> error + Migration option" where
  "parseMigrationFile afs file fixtures =
     (let fileName = EntryName file in
      if \<not> HasSuffix fileName ''.sql'' then Inr None
      else if HasSuffix fileName ''.fixture.sql'' then Inr None
      else
        (let fileName = TrimSuffix fileName ''.sql'';
             underscoreIndex = Index fileName ''_''
         in if underscoreIndex = - 1
            then Inl (New (''invalid migration file name format for file: '' @ fileName
                           @ '', (the format is <id>_<name>.sql)''))
            else
              (let versionStr = take (nat underscoreIndex) fileName;
                   name = drop (nat (underscoreIndex + 1)) fileName
               in case Atoi versionStr of
                    Inl err \<Rightarrow>
                      Inl (Wrap (''failed to parse migration file version ('' @ fileName @ ''): '') err)
                  | Inr version \<Rightarrow>
                      if version \<le> 0
                      then Inl (New (''migration file version cannot be <= 0: '' @ fileName))
                      else
                        (case ReadFile afs (fileName @ ''.sql'') of
                           Inl err \<Rightarrow>
                             Inl (Wrap (''failed to read migration file ('' @ fileName @ ''): '') err)
                         | Inr migrationSQL \<Rightarrow>
                             (let m = \<lparr>Version = version, Name = name,
                                       MigrationSQL = migrationSQL, FixturesSQL = []\<rparr>
                              in if fixtures
                                 then
                                   (case Stat afs (fileName @ ''.fixture.sql'') of
                                      None \<Rightarrow>
                                        (case ReadFile afs (fileName @ ''.fixture.sql'') of
                                           Inl err \<Rightarrow>
                                             Inl (Wrap (''failed to read fixture file ('' @ fileName
                                                        @ ''): '') err)
                                         | Inr fixturesSQL \<Rightarrow>
                                             Inr (Some (m\<lparr>FixturesSQL := fixturesSQL\<rparr>)))
                                    | Some statErr \<Rightarrow> Inr (Some m))
                                 else Inr (Some m))))))"

text \<open>
  The loop of \<open>LoadMigrationsFromFS\<close> over the directory entries: directories are
  skipped, an error ends the load, a parsed migration is appended.
\<close>

fun loadEntries :: "FS \<Rightarrow> bool \<Rightarrow> DirEntry list \<Rightarrow> Migration list \<Rightarrow> error + Migration list" where
  "loadEntries afs fixtures [] migrations = Inr migrations"
| "loadEntries afs fixtures (file # files) migrations =
     (if IsDir file then loadEntries afs fixtures files migrations
      else (case parseMigrationFile afs file fixtures of
              Inl err \<Rightarrow> Inl err
            | Inr None \<Rightarrow> loadEntries afs fixtures files migrations
            | Inr (Some m) \<Rightarrow> loadEntries afs fixtures files (migrations @ [m])))"

definition LoadMigrationsFromFS :: "FS \<Rightarrow> bool \<Rightarrow> error + Migration list" where
  "LoadMigrationsFromFS afs fixtures =
     (case ReadDir afs of
        Inl err \<Rightarrow> Inl (Wrap ''failed to read migrations from embedded filesystem: '' err)
      | Inr files \<Rightarrow>
          if length files = 0 then Inl (New ''no migrations found'')
          else loadEntries afs fixtures files [])"

text \<open>
  \<open>LoadMigrationsFromDir\<close> opens the directory with \<open>os.DirFS\<close>; the file system behind
  a path is a parameter.
\<close>

definition LoadMigrationsFromDir :: "(string \<Rightarrow> FS) \<Rightarrow> string \<Rightarrow> bool \<Rightarrow> error + Migration list" where
  "LoadMigrationsFromDir DirFS path fixtures = LoadMigrationsFromFS (DirFS path) fixtures"

subsection \<open>The loader without fixtures\<close>

text \<open>
  \<open>src/migration.go\<close> holds the loader in its form without fixtures: the struct has one
  \<open>SQL\<close> field, every file that is not a directory is read and then its whole name is
  parsed by \<open>parseMigrationFileName\<close>, which returns \<open>(version, name, err)\<close>.
\<close>

record PlainMigration =
  PlainVersion :: int
  PlainName :: string
  SQL :: string

definition parseMigrationFileName :: "string \<Rightarrow> error + int \<times> string" where
  "parseMigrationFileName fileName =
     (let underscoreIndex = Index fileName ''_''
      in if underscoreIndex = - 1
         then Inl (New (''invalid migration file name format for file: '' @ fileName
                        @ '', (the format is <id>_<name>.sql)''))
         else
           (let versionStr = take (nat underscoreIndex) fileName;
                name = drop (nat (underscoreIndex + 1)) fileName
            in case Atoi versionStr of
                 Inl err \<Rightarrow>
                   Inl (Wrap (''failed to parse migration file version ('' @ fileName @ ''): '') err)
               | Inr version \<Rightarrow>
                   if version \<le> 0
                   then Inl (New (''migration file version cannot be <= 0: '' @ fileName))
                   else Inr (version, name)))"

fun loadPlainEntries :: "FS \<Rightarrow> DirEntry list \<Rightarrow> PlainMigration list \<Rightarrow> error + PlainMigration list" where
  "loadPlainEntries afs [] migrations = Inr migrations"
| "loadPlainEntries afs (file # files) migrations =
     (if IsDir file then loadPlainEntries afs files migrations
      else (case ReadFile afs (EntryName file) of
              Inl err \<Rightarrow>
                Inl (Wrap (''failed to read migration file ('' @ EntryName file @ ''): '') err)
            | Inr content \<Rightarrow>
                (case parseMigrationFileName (EntryName file) of
                   Inl err \<Rightarrow> Inl err
                 | Inr (version, name) \<Rightarrow>
                     loadPlainEntries afs files
                       (migrations @ [\<lparr>PlainVersion = version, PlainName = name, SQL = content\<rparr>]))))"

definition LoadPlainMigrationsFromFS :: "FS \<Rightarrow> error + PlainMigration list" where
  "LoadPlainMigrationsFromFS afs =
     (case ReadDir afs of
        Inl err \<Rightarrow> Inl (Wrap ''failed to read migrations from embedded filesystem: '' err)
      | Inr files \<Rightarrow>
          if length files = 0 then Inl (New ''no migrations found'')
          else loadPlainEntries afs files [])"

text \<open>
  A file system given by a list of named nodes, in the manner of \<open>fstest.MapFS\<close> of the
  repository's tests: a regular file can be read and a directory cannot.
\<close>

datatype node = File string | Directory

definition ErrNotExist :: error where
  "ErrNotExist = New ''file does not exist''"

definition MapFS :: "(string \<times> node) list \<Rightarrow> FS" where
  "MapFS nodes =
     \<lparr>ReadDir = Inr (map (\<lambda>(n, x). \<lparr>EntryName = n, IsDir = (x = Directory)\<rparr>) nodes),
      ReadFile = (\<lambda>n. case map_of nodes n of
                          Some (File content) \<Rightarrow> Inr content
                        | Some Directory \<Rightarrow> Inl (New ''is a directory'')
                        | None \<Rightarrow> Inl ErrNotExist),
      Stat = (\<lambda>n. case map_of nodes n of Some x \<Rightarrow> None | None \<Rightarrow> Some ErrNotExist)\<rparr>"

section \<open>The migration runner\<close>

text \<open>
  \<open>MigrationDriver\<close> is an interface. Its methods act on the world outside the process
  (the database, the connection, the clock): each is a function from the world before the
  call to the value returned and the world after it. \<open>GetCurrentVersion\<close> returns Go's
  pair \<open>(version, err)\<close>.
\<close>

record 's MigrationDriver =
  Connect :: "'s \<Rightarrow> error option \<times> 's"
  CreateMigrationsTable :: "'s \<Rightarrow> error option \<times> 's"
  GetCurrentVersion :: "'s \<Rightarrow> (int \<times> error option) \<times> 's"
  ApplyMigration :: "Migration \<Rightarrow> 's \<Rightarrow> error option \<times> 's"
  Close :: "'s \<Rightarrow> error option \<times> 's"

text \<open>
  What a run does to its collaborators is recorded as it happens: every call on the
  driver with the value it returned, every \<open>ctx.Err()\<close> the loop asks for, and every line
  handed to the logger.
\<close>

datatype event =
    ConnectCalled "error option"
  | CreateMigrationsTableCalled "error option"
  | GetCurrentVersionCalled int "error option"
  | ApplyMigrationCalled Migration "error option"
  | CloseCalled "error option"
  | CtxErrCalled "error option"
  | LoggedInfo string
  | LoggedError error

text \<open>A call of the function ends by returning its \<open>error\<close> (nil is \<open>None\<close>) or by a panic.\<close>

datatype outcome = Returned "error option" | Panicked

text \<open>\<open>if logger != nil { logger.Info(...) }\<close>; the flag says whether a logger was passed.\<close>

definition logInfo :: "bool \<Rightarrow> string \<Rightarrow> event list" where
  "logInfo logger msg = (if logger then [LoggedInfo msg] else [])"

definition logError :: "bool \<Rightarrow> error \<Rightarrow> event list" where
  "logError logger err = (if logger then [LoggedError err] else [])"

text \<open>
  \<open>sort.Slice(migrations, less)\<close> with \<open>less i j = migrations[i].Version < migrations[j].Version\<close>
  reorders the caller's slice in place. The model is the sort by the \<open>Version\<close> key. (The
  library's sort is not stable; the order among equal versions is the only thing the model
  fixes beyond it.)
\<close>

definition sortSlice :: "Migration list \<Rightarrow> Migration list" where
  "sortSlice migrations = sort_key Version migrations"

definition applyErrorPrefix :: "Migration \<Rightarrow> string" where
  "applyErrorPrefix m = ''failed to apply migration '' @ showInt (Version m) @ '': ''"

text \<open>
  The loop \<open>for i := currentVersion; i < len(migrations); i++\<close>. The context is a function
  of the world. Reading \<open>migrations[i]\<close> at a negative \<open>i\<close> panics, before the driver or the
  logger is reached. The result is the early exit, if any, the counter
  \<open>appliedMigrations\<close>, the events and the world.
\<close>

function applyFrom ::
  "('s \<Rightarrow> error option) \<Rightarrow> 's MigrationDriver \<Rightarrow> Migration list \<Rightarrow> bool \<Rightarrow> int \<Rightarrow> int \<Rightarrow> 's
     \<Rightarrow> outcome option \<times> int \<times> event list \<times> 's" where
  "applyFrom ctxErr driver migrations logger i appliedMigrations s =
     (if i < int (length migrations) then
        (case ctxErr s of
           Some cerr \<Rightarrow> (Some (Returned (Some cerr)), appliedMigrations, [CtxErrCalled (Some cerr)], s)
         | None \<Rightarrow>
             if i < 0 then (Some Panicked, appliedMigrations, [CtxErrCalled None], s)
             else
               (let m = migrations ! nat i;
                    evs = CtxErrCalled None
                          # logInfo logger (''applying migration '' @ showInt (Version m) @ '': '' @ Name m)
                in case ApplyMigration driver m s of
                     (Some err, s') \<Rightarrow>
                       (Some (Returned (Some (Wrap (applyErrorPrefix m) err))), appliedMigrations,
                        evs @ [ApplyMigrationCalled m (Some err)]
                            @ logError logger (Wrap (applyErrorPrefix m) err), s')
                   | (None, s') \<Rightarrow>
                       (case applyFrom ctxErr driver migrations logger (i + 1) (appliedMigrations + 1) s' of
                          (out, n, evs', s'') \<Rightarrow>
                            (out, n, evs @ [ApplyMigrationCalled m None] @ evs', s''))))
      else (None, appliedMigrations, [], s))"
  by pat_completeness auto
termination
  by (relation "measure (\<lambda>(ctxErr, driver, migrations, logger, i, appliedMigrations, s).
                  nat (int (length migrations) - i))") auto

declare applyFrom.simps [simp del]

text \<open>The same loop over the list of migrations still to be visited.\<close>

fun applyAll ::
  "('s \<Rightarrow> error option) \<Rightarrow> 's MigrationDriver \<Rightarrow> bool \<Rightarrow> Migration list \<Rightarrow> int \<Rightarrow> 's
     \<Rightarrow> outcome option \<times> int \<times> event list \<times> 's" where
  "applyAll ctxErr driver logger [] appliedMigrations s = (None, appliedMigrations, [], s)"
| "applyAll ctxErr driver logger (m # pending) appliedMigrations s =
     (case ctxErr s of
        Some cerr \<Rightarrow> (Some (Returned (Some cerr)), appliedMigrations, [CtxErrCalled (Some cerr)], s)
      | None \<Rightarrow>
          (let evs = CtxErrCalled None
                     # logInfo logger (''applying migration '' @ showInt (Version m) @ '': '' @ Name m)
           in case ApplyMigration driver m s of
                (Some err, s') \<Rightarrow>
                  (Some (Returned (Some (Wrap (applyErrorPrefix m) err))), appliedMigrations,
                   evs @ [ApplyMigrationCalled m (Some err)]
                       @ logError logger (Wrap (applyErrorPrefix m) err), s')
              | (None, s') \<Rightarrow>
                  (case applyAll ctxErr driver logger pending (appliedMigrations + 1) s' of
                     (out, n, evs', s'') \<Rightarrow>
                       (out, n, evs @ [ApplyMigrationCalled m None] @ evs', s''))))"

text \<open>
  The body of \<open>RunMigrations\<close> from the \<open>defer driver.Close(ctx)\<close> on: the outcome, the
  events and the world at the point where the deferred call runs.
\<close>

definition runConnected ::
  "('s \<Rightarrow> error option) \<Rightarrow> 's MigrationDriver \<Rightarrow> Migration list \<Rightarrow> bool \<Rightarrow> 's
     \<Rightarrow> outcome \<times> event list \<times> 's" where
  "runConnected ctxErr driver migrations logger s1 =
     (case CreateMigrationsTable driver s1 of
        (Some err, s2) \<Rightarrow>
          (Returned (Some (Wrap ''failed to create migrations table: '' err)),
           CreateMigrationsTableCalled (Some err)
             # logError logger (Wrap ''failed to create migrations table: '' err), s2)
      | (None, s2) \<Rightarrow>
          (case GetCurrentVersion driver s2 of
             ((currentVersion, Some err), s3) \<Rightarrow>
               (Returned (Some (Wrap ''failed to get current version: '' err)),
                [CreateMigrationsTableCalled None, GetCurrentVersionCalled currentVersion (Some err)]
                  @ logError logger (Wrap ''failed to get current version: '' err), s3)
           | ((currentVersion, None), s3) \<Rightarrow>
               (let evs = [CreateMigrationsTableCalled None, GetCurrentVersionCalled currentVersion None]
                          @ logInfo logger (''current version: '' @ showInt currentVersion)
                in case applyFrom ctxErr driver migrations logger currentVersion 0 s3 of
                     (Some out, appliedMigrations, evs', s4) \<Rightarrow> (out, evs @ evs', s4)
                   | (None, appliedMigrations, evs', s4) \<Rightarrow>
                       (Returned None,
                        evs @ evs'
                          @ logInfo logger (''applied '' @ showInt appliedMigrations @ '' migrations''),
                        s4))))"

text \<open>
  A finished call of \<open>RunMigrations\<close>: how it ended, the caller's slice as the call left
  it, the events in order, and the world afterwards.
\<close>

record 's run =
  result :: outcome
  slice :: "Migration list"
  trace :: "event list"
  world :: 's

definition RunMigrations ::
  "('s \<Rightarrow> error option) \<Rightarrow> 's MigrationDriver \<Rightarrow> Migration list \<Rightarrow> bool \<Rightarrow> 's \<Rightarrow> 's run" where
  "RunMigrations ctxErr driver migrations0 logger s0 =
     (let migrations = sortSlice migrations0
      in case Connect driver s0 of
           (Some err, s1) \<Rightarrow>
             \<lparr>result = Returned (Some (Wrap ''failed to connect to the database: '' err)),
              slice = migrations,
              trace = ConnectCalled (Some err)
                        # logError logger (Wrap ''failed to connect to the database: '' err),
              world = s1\<rparr>
         | (None, s1) \<Rightarrow>
             (case runConnected ctxErr driver migrations logger s1 of
                (out, evs, s) \<Rightarrow>
                  (case Close driver s of
                     (closeErr, s') \<Rightarrow>
                       \<lparr>result = out, slice = migrations,
                        trace = ConnectCalled None # evs @ [CloseCalled closeErr],
                        world = s'\<rparr>)))"

text \<open>Readings of a trace.\<close>

fun appliedOf :: "event \<Rightarrow> Migration list" where
  "appliedOf (ApplyMigrationCalled m None) = [m]"
| "appliedOf ev = []"

fun attemptedOf :: "event \<Rightarrow> Migration list" where
  "attemptedOf (ApplyMigrationCalled m err) = [m]"
| "attemptedOf ev = []"

definition applied :: "event list \<Rightarrow> Migration list" where
  "applied evs = concat (map appliedOf evs)"

definition attempted :: "event list \<Rightarrow> Migration list" where
  "attempted evs = concat (map attemptedOf evs)"

fun isClose :: "event \<Rightarrow> bool" where
  "isClose (CloseCalled err) = True"
| "isClose ev = False"

fun isCreateMigrationsTable :: "event \<Rightarrow> bool" where
  "isCreateMigrationsTable (CreateMigrationsTableCalled err) = True"
| "isCreateMigrationsTable ev = False"

fun isLogged :: "event \<Rightarrow> bool" where
  "isLogged (LoggedInfo msg) = True"
| "isLogged (LoggedError err) = True"
| "isLogged ev = False"

text \<open>The events the loop can produce.\<close>

fun isLoopEvent :: "event \<Rightarrow> bool" where
  "isLoopEvent (ApplyMigrationCalled m err) = True"
| "isLoopEvent (CtxErrCalled err) = True"
| "isLoopEvent (LoggedInfo msg) = True"
| "isLoopEvent (LoggedError err) = True"
| "isLoopEvent ev = False"

text \<open>
  \<open>checksPrecede ok evs\<close>: every \<open>ApplyMigration\<close> in \<open>evs\<close> comes after a \<open>ctx.Err()\<close>
  that returned nil, with no other \<open>ctx.Err()\<close> and no other \<open>ApplyMigration\<close> in between;
  \<open>ok\<close> says whether such a check is already behind us.
\<close>

fun checksPrecede :: "bool \<Rightarrow> event list \<Rightarrow> bool" where
  "checksPrecede ok [] = True"
| "checksPrecede ok (CtxErrCalled None # evs) = checksPrecede True evs"
| "checksPrecede ok (CtxErrCalled (Some cerr) # evs) = checksPrecede False evs"
| "checksPrecede ok (ApplyMigrationCalled m err # evs) = (ok \<and> checksPrecede False evs)"
| "checksPrecede ok (ev # evs) = checksPrecede ok evs"

section \<open>The executor\<close>

text \<open>
  The configuration as \<open>LoadConfig\<close> delivers it; the two durations are nanoseconds.
\<close>

record postgresConfig =
  DSN :: string

record migrationConfig =
  TargetName :: string
  Source :: string
  Postgres :: "postgresConfig option"

record Config =
  MaxRetries :: int
  RetryDelay :: int
  Timeout :: int
  Fixtures :: bool
  Migrations :: "migrationConfig list"

text \<open>
  What the executor takes from outside the repository: the directory behind a path
  (\<open>os.DirFS\<close>), the behaviour of the Postgres driver for a connection string, the
  \<open>Err()\<close> of the context made by \<open>context.WithTimeout(ctx, cfg.Timeout)\<close> as a function of
  the world, and what \<open>time.Sleep\<close> does to the world.
\<close>

record 's environment =
  DirFS :: "string \<Rightarrow> FS"
  NewPostgresDriver :: "string \<Rightarrow> 's MigrationDriver"
  WithTimeout :: "int \<Rightarrow> 's \<Rightarrow> error option"
  Sleep :: "int \<Rightarrow> 's \<Rightarrow> 's"

definition getDriver :: "'s environment \<Rightarrow> migrationConfig \<Rightarrow> 's MigrationDriver option" where
  "getDriver env m =
     (case Postgres m of
        Some pg \<Rightarrow> Some (NewPostgresDriver env (DSN pg))
      | None \<Rightarrow> None)"

text \<open>
  \<open>executeMigration\<close> returns nothing. How the unit ended is what an observer of the
  goroutine sees: the driver was not resolved, the load failed, an attempt returned nil,
  the loop ran out of attempts, or an attempt panicked.
\<close>

datatype unitEnd =
    DriverUnresolved
  | LoadFailed error
  | RunSucceeded
  | RetriesExhausted
  | UnitPanicked

text \<open>
  The loop \<open>for i := 0; i < cfg.MaxRetries; i++\<close>, by the number of iterations left. Each
  attempt is handed the slice as the attempt before left it. The logger of the executor is
  never nil.
\<close>

fun retryLoop ::
  "'s environment \<Rightarrow> ('s \<Rightarrow> error option) \<Rightarrow> 's MigrationDriver \<Rightarrow> int \<Rightarrow> nat \<Rightarrow> Migration list \<Rightarrow> 's
     \<Rightarrow> unitEnd \<times> 's run list \<times> 's" where
  "retryLoop env ctxErr driver delay 0 migrations s = (RetriesExhausted, [], s)"
| "retryLoop env ctxErr driver delay (Suc n) migrations s =
     (let r = RunMigrations ctxErr driver migrations True s
      in case result r of
           Returned None \<Rightarrow> (RunSucceeded, [r], world r)
         | Panicked \<Rightarrow> (UnitPanicked, [r], world r)
         | Returned (Some err) \<Rightarrow>
             (case retryLoop env ctxErr driver delay n (slice r) (Sleep env delay (world r)) of
                (end, runs, s') \<Rightarrow> (end, r # runs, s')))"

definition executeMigration ::
  "'s environment \<Rightarrow> Config \<Rightarrow> migrationConfig \<Rightarrow> 's \<Rightarrow> unitEnd \<times> 's run list \<times> 's" where
  "executeMigration env cfg migrationCfg s =
     (case getDriver env migrationCfg of
        None \<Rightarrow> (DriverUnresolved, [], s)
      | Some driver \<Rightarrow>
          (case LoadMigrationsFromDir (DirFS env) (Source migrationCfg) (Fixtures cfg) of
             Inl err \<Rightarrow> (LoadFailed err, [], s)
           | Inr migrations \<Rightarrow>
               retryLoop env (WithTimeout env (Timeout cfg)) driver (RetryDelay cfg)
                 (nat (MaxRetries cfg)) migrations s))"

text \<open>
  \<open>Execute\<close> starts one goroutine per target, waits for all of them and returns. The
  targets share no state, so each unit runs on its own copy of the world. A panic in a
  goroutine ends the process, in which case \<open>Execute\<close> does not return (\<open>None\<close>).
\<close>

definition unitEnds :: "'s environment \<Rightarrow> Config \<Rightarrow> 's \<Rightarrow> unitEnd list" where
  "unitEnds env cfg s = map (\<lambda>migration. fst (executeMigration env cfg migration s)) (Migrations cfg)"

definition Execute :: "'s environment \<Rightarrow> Config \<Rightarrow> 's \<Rightarrow> bool option" where
  "Execute env cfg s =
     (if UnitPanicked \<in> set (unitEnds env cfg s) then None else Some True)"

section \<open>The ledger contract of a driver\<close>


section \<open>A driver and sources to run the code on\<close>

text \<open>
  An in-memory database: the ledger's rows and whether the context has been cancelled.
  Its driver inserts the version as a primary key, so a version already in the ledger is
  refused; a migration whose SQL is \<open>FAIL\<close> is refused; a migration whose SQL is \<open>CANCEL\<close>
  is applied and the context is cancelled while it runs.
\<close>

record db =
  ledger :: "int list"
  cancelled :: bool

definition dbErr :: "db \<Rightarrow> error option" where
  "dbErr s = (if cancelled s then Some Canceled else None)"

definition memoryDriver :: "db MigrationDriver" where
  "memoryDriver =
     \<lparr>Connect = (\<lambda>s. (None, s)),
      CreateMigrationsTable = (\<lambda>s. (None, s)),
      GetCurrentVersion = (\<lambda>s. ((fold max (ledger s) 0, None), s)),
      ApplyMigration = (\<lambda>m s.
        if MigrationSQL m = ''FAIL'' then (Some (New ''syntax error''), s)
        else if Version m \<in> set (ledger s) then (Some (New ''duplicate key''), s)
        else (None, s\<lparr>ledger := Version m # ledger s,
                      cancelled := cancelled s \<or> MigrationSQL m = ''CANCEL''\<rparr>)),
      Close = (\<lambda>s. (None, s))\<rparr>"

definition unreachableDriver :: "db MigrationDriver" where
  "unreachableDriver = memoryDriver\<lparr>Connect := (\<lambda>s. (Some (New ''connection refused''), s))\<rparr>"

definition emptyDb :: db where
  "emptyDb = \<lparr>ledger = [], cancelled = False\<rparr>"

definition mig :: "int \<Rightarrow> string \<Rightarrow> string \<Rightarrow> Migration" where
  "mig v n sql = \<lparr>Version = v, Name = n, MigrationSQL = sql, FixturesSQL = []\<rparr>"

definition exampleEnv :: "db environment" where
  "exampleEnv =
     \<lparr>DirFS = (\<lambda>path. if path = ''/migrations''
                       then MapFS [(''1_create_users.sql'', File ''CREATE TABLE users (id INT);'')]
                       else MapFS []),
      NewPostgresDriver = (\<lambda>dsn. if dsn = ''postgres://up'' then memoryDriver else unreachableDriver),
      WithTimeout = (\<lambda>d. dbErr),
      Sleep = (\<lambda>d s. s)\<rparr>"

definition exampleCfg :: "string \<Rightarrow> string \<Rightarrow> Config" where
  "exampleCfg source dsn =
     \<lparr>MaxRetries = 3, RetryDelay = 1000000000, Timeout = 30000000000, Fixtures = False,
      Migrations = [\<lparr>TargetName = ''main'', Source = source, Postgres = Some \<lparr>DSN = dsn\<rparr>\<rparr>]\<rparr>"


section \<open>File names and numbers\<close>


lemma Index_absent: "c \<notin> set xs \<Longrightarrow> Index xs [c] = - 1"
  by (induction xs) auto



lemma digitVal_nonneg: "isDigit c \<Longrightarrow> 0 \<le> digitVal c"
  by (simp add: isDigit_def digitVal_def)

lemma decimal_snoc: "decimal (ds @ [c]) = decimal ds * 10 + digitVal c"
  by (simp add: decimal_def)

lemma decimal_nonneg: "list_all isDigit ds \<Longrightarrow> 0 \<le> decimal ds"
  by (induction ds rule: rev_induct) (auto simp: decimal_snoc digitVal_nonneg decimal_def)














section \<open>The loop of the runner\<close>

lemma applyFrom_negative:
  "i < 0 \<Longrightarrow> applyFrom ctxErr driver migrations logger i n s =
     (case ctxErr s of
        Some cerr \<Rightarrow> (Some (Returned (Some cerr)), n, [CtxErrCalled (Some cerr)], s)
      | None \<Rightarrow> (Some Panicked, n, [CtxErrCalled None], s))"
  by (subst applyFrom.simps) (simp split: option.splits)

lemma applyFrom_applyAll:
  "0 \<le> i \<Longrightarrow> applyFrom ctxErr driver migrations logger i n s =
     applyAll ctxErr driver logger (drop (nat i) migrations) n s"
proof (induction ctxErr driver migrations logger i n s rule: applyFrom.induct)
  case (1 ctxErr driver migrations logger i n s)
  show ?case
  proof (cases "i < int (length migrations)")
    case False
    then show ?thesis by (subst applyFrom.simps) simp
  next
    case True
    with "1.prems" have d: "drop (nat i) migrations = migrations ! nat i # drop (nat (i + 1)) migrations"
      by (simp add: Cons_nth_drop_Suc nat_add_distrib)
    show ?thesis
    proof (cases "ctxErr s")
      case (Some cerr)
      with True d show ?thesis by (subst applyFrom.simps) simp
    next
      case None
      obtain err s' where a: "ApplyMigration driver (migrations ! nat i) s = (err, s')"
        by (cases "ApplyMigration driver (migrations ! nat i) s")
      show ?thesis
      proof (cases err)
        case (Some e)
        with True None a d "1.prems" show ?thesis
          by (subst applyFrom.simps) (simp add: Let_def)
      next
        case none: None
        have ih: "applyFrom ctxErr driver migrations logger (i + 1) (n + 1) s' =
                  applyAll ctxErr driver logger (drop (nat (i + 1)) migrations) (n + 1) s'"
          using "1.IH" [OF True None _ refl refl a [symmetric] none] "1.prems" by simp
        from True None a d "1.prems" none show ?thesis
          by (subst applyFrom.simps) (simp add: Let_def ih)
      qed
    qed
  qed
qed

lemma applied_simps [simp]:
  "applied [] = []"
  "applied (ev # evs) = appliedOf ev @ applied evs"
  "applied (evs @ evs') = applied evs @ applied evs'"
  by (simp_all add: applied_def)

lemma attempted_simps [simp]:
  "attempted [] = []"
  "attempted (ev # evs) = attemptedOf ev @ attempted evs"
  "attempted (evs @ evs') = attempted evs @ attempted evs'"
  by (simp_all add: attempted_def)

lemma log_no_apply [simp]:
  "applied (logInfo logger msg) = []" "applied (logError logger err) = []"
  "attempted (logInfo logger msg) = []" "attempted (logError logger err) = []"
  by (simp_all add: logInfo_def logError_def)

lemma applyAll_Nil_iff [simp]:
  "applyAll ctxErr driver logger [] n s = (out, n', evs, s') \<longleftrightarrow>
     out = None \<and> n' = n \<and> evs = [] \<and> s' = s"
  by auto

text \<open>One step of the loop, as the three ways it can go.\<close>

lemma applyAll_Cons_cases:
  assumes "applyAll ctxErr driver logger (m # pending) n s = (out, n', evs, s')"
  obtains
    (cancelled) cerr where "ctxErr s = Some cerr" "out = Some (Returned (Some cerr))" "n' = n"
      "evs = [CtxErrCalled (Some cerr)]" "s' = s"
  | (failed) err where "ctxErr s = None" "ApplyMigration driver m s = (Some err, s')"
      "out = Some (Returned (Some (Wrap (applyErrorPrefix m) err)))" "n' = n"
      "evs = CtxErrCalled None
               # logInfo logger (''applying migration '' @ showInt (Version m) @ '': '' @ Name m)
               @ [ApplyMigrationCalled m (Some err)]
               @ logError logger (Wrap (applyErrorPrefix m) err)"
  | (applied) s1 evs' where "ctxErr s = None" "ApplyMigration driver m s = (None, s1)"
      "applyAll ctxErr driver logger pending (n + 1) s1 = (out, n', evs', s')"
      "evs = CtxErrCalled None
               # logInfo logger (''applying migration '' @ showInt (Version m) @ '': '' @ Name m)
               @ [ApplyMigrationCalled m None] @ evs'"
  using assms by (auto simp: Let_def split: option.splits prod.splits)



lemma applyAll_count:
  "applyAll ctxErr driver logger pending n s = (out, n', evs, s') \<Longrightarrow>
     n' = n + int (length (applied evs))"
proof (induction pending arbitrary: n s evs)
  case Nil
  then show ?case by simp
next
  case (Cons m pending)
  from Cons.prems show ?case
  proof (cases rule: applyAll_Cons_cases)
    case (applied s1 evs')
    then show ?thesis using Cons.IH [of "n + 1" s1 evs'] by simp
  qed simp_all
qed



lemma applyAll_never_panics:
  "applyAll ctxErr driver logger pending n s = (out, n', evs, s') \<Longrightarrow> out \<noteq> Some Panicked"
proof (induction pending arbitrary: n s evs)
  case Nil
  then show ?case by simp
next
  case (Cons m pending)
  from Cons.prems show ?case
  proof (cases rule: applyAll_Cons_cases)
    case (applied s1 evs')
    then show ?thesis using Cons.IH [of "n + 1" s1 evs'] by simp
  qed simp_all
qed




lemma applyAll_exit:
  "applyAll ctxErr driver logger pending n s = (Some out, n', evs, s') \<Longrightarrow>
     \<exists>err. out = Returned (Some err)"
proof (induction pending arbitrary: n s evs)
  case Nil
  then show ?case by simp
next
  case (Cons m pending)
  from Cons.prems show ?case
  proof (cases rule: applyAll_Cons_cases)
    case (applied s1 evs')
    then show ?thesis using Cons.IH [of "n + 1" s1 evs'] by simp
  qed simp_all
qed

lemma checksPrecede_logInfo [simp]:
  "checksPrecede ok (logInfo logger msg @ evs) = checksPrecede ok evs"
  by (simp add: logInfo_def)

lemma checksPrecede_logError [simp]:
  "checksPrecede ok (logError logger err @ evs) = checksPrecede ok evs"
  by (simp add: logError_def)




subsection \<open>The loop from an index\<close>

lemma applyFrom_negative_cases:
  assumes "applyFrom ctxErr driver migrations logger i n s = (out, n', evs, s')" "i < 0"
  shows "(\<exists>cerr. out = Some (Returned (Some cerr)) \<and> evs = [CtxErrCalled (Some cerr)])
         \<or> (out = Some Panicked \<and> evs = [CtxErrCalled None])"
    and "n' = n" and "s' = s"
  using assms by (auto simp: applyFrom_negative split: option.splits)



lemma applyFrom_count:
  assumes "applyFrom ctxErr driver migrations logger i n s = (out, n', evs, s')"
  shows "n' = n + int (length (applied evs))"
proof (cases "0 \<le> i")
  case True
  with assms have a: "applyAll ctxErr driver logger (drop (nat i) migrations) n s = (out, n', evs, s')"
    by (simp add: applyFrom_applyAll)
  show ?thesis using applyAll_count [OF a] True by simp
next
  case False
  with applyFrom_negative_cases [OF assms] show ?thesis by auto
qed




lemma applyFrom_exit:
  assumes "applyFrom ctxErr driver migrations logger i n s = (Some out, n', evs, s')"
  shows "(\<exists>err. out = Returned (Some err)) \<or> (out = Panicked \<and> i < 0)"
proof (cases "0 \<le> i")
  case True
  with assms have a: "applyAll ctxErr driver logger (drop (nat i) migrations) n s = (Some out, n', evs, s')"
    by (simp add: applyFrom_applyAll)
  show ?thesis using applyAll_exit [OF a] by simp
next
  case False
  with applyFrom_negative_cases(1) [OF assms] show ?thesis by auto
qed






subsection \<open>The ways a run can go\<close>

lemma RunMigrations_cases:
  fixes ctxErr :: "'s \<Rightarrow> error option"
  obtains
    (connect_failed) err s1 where
      "Connect driver s0 = (Some err, s1)"
      "RunMigrations ctxErr driver migrations logger s0 =
         \<lparr>result = Returned (Some (Wrap ''failed to connect to the database: '' err)),
          slice = sortSlice migrations,
          trace = ConnectCalled (Some err)
                    # logError logger (Wrap ''failed to connect to the database: '' err),
          world = s1\<rparr>"
  | (create_failed) s1 err s2 closeErr s' where
      "Connect driver s0 = (None, s1)"
      "CreateMigrationsTable driver s1 = (Some err, s2)"
      "Close driver s2 = (closeErr, s')"
      "RunMigrations ctxErr driver migrations logger s0 =
         \<lparr>result = Returned (Some (Wrap ''failed to create migrations table: '' err)),
          slice = sortSlice migrations,
          trace = [ConnectCalled None, CreateMigrationsTableCalled (Some err)]
                    @ logError logger (Wrap ''failed to create migrations table: '' err)
                    @ [CloseCalled closeErr],
          world = s'\<rparr>"
  | (version_failed) s1 s2 v err s3 closeErr s' where
      "Connect driver s0 = (None, s1)"
      "CreateMigrationsTable driver s1 = (None, s2)"
      "GetCurrentVersion driver s2 = ((v, Some err), s3)"
      "Close driver s3 = (closeErr, s')"
      "RunMigrations ctxErr driver migrations logger s0 =
         \<lparr>result = Returned (Some (Wrap ''failed to get current version: '' err)),
          slice = sortSlice migrations,
          trace = [ConnectCalled None, CreateMigrationsTableCalled None,
                   GetCurrentVersionCalled v (Some err)]
                    @ logError logger (Wrap ''failed to get current version: '' err)
                    @ [CloseCalled closeErr],
          world = s'\<rparr>"
  | (looped) s1 s2 v s3 out n evs s4 closeErr s' where
      "Connect driver s0 = (None, s1)"
      "CreateMigrationsTable driver s1 = (None, s2)"
      "GetCurrentVersion driver s2 = ((v, None), s3)"
      "applyFrom ctxErr driver (sortSlice migrations) logger v 0 s3 = (out, n, evs, s4)"
      "Close driver s4 = (closeErr, s')"
      "RunMigrations ctxErr driver migrations logger s0 =
         \<lparr>result = (case out of Some exit \<Rightarrow> exit | None \<Rightarrow> Returned None),
          slice = sortSlice migrations,
          trace = [ConnectCalled None, CreateMigrationsTableCalled None,
                   GetCurrentVersionCalled v None]
                    @ logInfo logger (''current version: '' @ showInt v)
                    @ evs
                    @ (case out of
                         Some exit \<Rightarrow> []
                       | None \<Rightarrow> logInfo logger (''applied '' @ showInt n @ '' migrations''))
                    @ [CloseCalled closeErr],
          world = s'\<rparr>"
proof -
  obtain cerr s1 where c: "Connect driver s0 = (cerr, s1)" by (cases "Connect driver s0")
  show thesis
  proof (cases cerr)
    case (Some err)
    with c show thesis
      by (intro connect_failed [of err s1]) (simp_all add: RunMigrations_def)
  next
    case None
    note cn = None
    obtain terr s2 where t: "CreateMigrationsTable driver s1 = (terr, s2)"
      by (cases "CreateMigrationsTable driver s1")
    show thesis
    proof (cases terr)
      case (Some err)
      obtain closeErr s' where cl: "Close driver s2 = (closeErr, s')" by (cases "Close driver s2")
      from c cn t Some cl show thesis
        by (intro create_failed [of s1 err s2 closeErr s'])
           (simp_all add: RunMigrations_def runConnected_def)
    next
      case None
      note tn = None
      obtain v verr s3 where g: "GetCurrentVersion driver s2 = ((v, verr), s3)"
        by (cases "GetCurrentVersion driver s2") auto
      show thesis
      proof (cases verr)
        case (Some err)
        obtain closeErr s' where cl: "Close driver s3 = (closeErr, s')" by (cases "Close driver s3")
        from c cn t tn g Some cl show thesis
          by (intro version_failed [of s1 s2 v err s3 closeErr s'])
             (simp_all add: RunMigrations_def runConnected_def)
      next
        case None
        obtain out n evs s4 where
          l: "applyFrom ctxErr driver (sortSlice migrations) logger v 0 s3 = (out, n, evs, s4)"
          by (cases "applyFrom ctxErr driver (sortSlice migrations) logger v 0 s3")
        obtain closeErr s' where cl: "Close driver s4 = (closeErr, s')" by (cases "Close driver s4")
        from c cn t tn g None l cl show thesis
          by (intro looped [of s1 s2 v s3 out n evs s4 closeErr s'])
             (simp_all add: RunMigrations_def runConnected_def split: option.splits)
      qed
    qed
  qed
qed



lemma loop_events_not_version:
  "\<forall>ev \<in> set evs. isLoopEvent ev \<Longrightarrow> GetCurrentVersionCalled v err \<notin> set evs"
  by auto

lemma log_filters [simp]:
  "filter isClose (logInfo logger msg) = []" "filter isClose (logError logger err) = []"
  "filter isCreateMigrationsTable (logInfo logger msg) = []"
  "filter isCreateMigrationsTable (logError logger err) = []"
  by (simp_all add: logInfo_def logError_def)

lemma log_members [simp]:
  "GetCurrentVersionCalled v verr \<notin> set (logInfo logger msg)"
  "GetCurrentVersionCalled v verr \<notin> set (logError logger err)"
  "ApplyMigrationCalled m aerr \<notin> set (logInfo logger msg)"
  "ApplyMigrationCalled m aerr \<notin> set (logError logger err)"
  "CtxErrCalled cerr \<notin> set (logInfo logger msg)"
  "CtxErrCalled cerr \<notin> set (logError logger err)"
  by (simp_all add: logInfo_def logError_def)

lemma RunMigrations_slice: "slice (RunMigrations ctxErr driver migrations logger s0) = sortSlice migrations"
  by (cases rule: RunMigrations_cases [of driver s0 ctxErr migrations logger]) simp_all

lemma sortSlice_sorted: "sorted (map Version (sortSlice migrations))"
  by (simp add: sortSlice_def)

lemma sortSlice_mset: "mset (sortSlice migrations) = mset migrations"
  by (simp add: sortSlice_def)


lemma applyAll_quiet:
  "applyAll ctxErr driver False pending n s = (out, n', evs, s') \<Longrightarrow> filter isLogged evs = []"
proof (induction pending arbitrary: n s evs)
  case Nil
  then show ?case by simp
next
  case (Cons m pending)
  from Cons.prems show ?case
  proof (cases rule: applyAll_Cons_cases)
    case (applied s1 evs')
    then show ?thesis using Cons.IH [of "n + 1" s1 evs'] by (simp add: logInfo_def)
  qed (simp_all add: logInfo_def logError_def)
qed

lemma applyFrom_quiet:
  assumes "applyFrom ctxErr driver migrations False i n s = (out, n', evs, s')"
  shows "filter isLogged evs = []"
proof (cases "0 \<le> i")
  case True
  with assms have a: "applyAll ctxErr driver False (drop (nat i) migrations) n s = (out, n', evs, s')"
    by (simp add: applyFrom_applyAll)
  show ?thesis by (rule applyAll_quiet [OF a])
next
  case False
  with applyFrom_negative_cases(1) [OF assms] show ?thesis by auto
qed









section \<open>The loader on well-formed names\<close>





section \<open>The claims\<close>

lemma Execute_never_False: "Execute env cfg s \<noteq> Some False"
  by (simp add: Execute_def)

text \<open>
  C1. The claim: \<open>Execute\<close> returns true if and only if every target's unit completed its
  runner within its retry budget, and reports failure when a unit fails. The code ends
  with \<open>return true\<close>. Here a single target whose database refuses every connection uses
  up its three attempts, and \<open>Execute\<close> still returns true.
\<close>

theorem C1_Execute_true_after_retries_exhausted:
  "unitEnds exampleEnv (exampleCfg ''/migrations'' ''postgres://down'') emptyDb = [RetriesExhausted]
   \<and> Execute exampleEnv (exampleCfg ''/migrations'' ''postgres://down'') emptyDb = Some True"
  by code_simp



text \<open>
  C3. The claim: on full success \<open>RunMigrations\<close> returns the count of migrations applied.
  The function returns an \<open>error\<close> and nothing else: a run that applies two migrations and
  a run that applies none both return nil.
\<close>

theorem C3_return_value_carries_no_count:
  "result (RunMigrations dbErr memoryDriver [mig 1 ''a'' ''A'', mig 2 ''b'' ''B''] True emptyDb)
     = Returned None
   \<and> length (applied (trace (RunMigrations dbErr memoryDriver
                                [mig 1 ''a'' ''A'', mig 2 ''b'' ''B''] True emptyDb))) = 2
   \<and> result (RunMigrations dbErr memoryDriver [] True emptyDb) = Returned None
   \<and> length (applied (trace (RunMigrations dbErr memoryDriver [] True emptyDb))) = 0"
  by code_simp

text \<open>
  C3, corrected. On full success (nil is returned) the count of the migrations applied in
  the call is not part of the result. When a logger was passed, the count is the last
  line logged, \<open>applied N migrations\<close>, right before \<open>Close\<close>, with \<open>N\<close> the number of
  migrations applied in this call (it may be 0); without a logger nothing is logged.
\<close>

theorem C3_count_is_logged_not_returned:
  assumes "result (RunMigrations ctxErr driver migrations logger s0) = Returned None"
  shows "(logger \<longrightarrow>
           (\<exists>pre closeErr. trace (RunMigrations ctxErr driver migrations logger s0) =
              pre @ [LoggedInfo (''applied ''
                       @ showInt (int (length (applied (trace (RunMigrations ctxErr driver migrations logger s0)))))
                       @ '' migrations''),
                     CloseCalled closeErr]))
         \<and> (\<not> logger \<longrightarrow> filter isLogged (trace (RunMigrations ctxErr driver migrations logger s0)) = [])"
proof (cases rule: RunMigrations_cases [of driver s0 ctxErr migrations logger])
  case (connect_failed err s1)
  with assms show ?thesis by simp
next
  case (create_failed s1 err s2 closeErr s')
  with assms show ?thesis by simp
next
  case (version_failed s1 s2 v err s3 closeErr s')
  with assms show ?thesis by simp
next
  case (looped s1 s2 v s3 out n evs s4 closeErr s')
  have none: "out = None"
  proof (cases out)
    case (Some exit)
    with applyFrom_exit looped(4) have "exit \<noteq> Returned None" by fastforce
    with looped(6) Some assms show ?thesis by simp
  qed simp
  have n: "n = int (length (applied evs))"
    using applyFrom_count [OF looped(4)] by simp
  have a: "applied (trace (RunMigrations ctxErr driver migrations logger s0)) = applied evs"
    using looped(6) none by simp
  have quiet: "\<not> logger \<Longrightarrow> filter isLogged evs = []"
    using applyFrom_quiet looped(4) by fastforce
  show ?thesis
  proof (intro conjI impI)
    assume logger
    then have "trace (RunMigrations ctxErr driver migrations logger s0) =
        ([ConnectCalled None, CreateMigrationsTableCalled None, GetCurrentVersionCalled v None]
          @ logInfo logger (''current version: '' @ showInt v) @ evs)
        @ [LoggedInfo (''applied '' @ showInt (int (length (applied evs))) @ '' migrations''),
           CloseCalled closeErr]"
      using looped(6) none n by (simp add: logInfo_def)
    then show "\<exists>pre closeErr. trace (RunMigrations ctxErr driver migrations logger s0) =
              pre @ [LoggedInfo (''applied ''
                       @ showInt (int (length (applied (trace (RunMigrations ctxErr driver migrations logger s0)))))
                       @ '' migrations''),
                     CloseCalled closeErr]"
      unfolding a by blast
  next
    assume "\<not> logger"
    then show "filter isLogged (trace (RunMigrations ctxErr driver migrations logger s0)) = []"
      using looped(6) none quiet by (simp add: logInfo_def)
  qed
qed

text \<open>
  C3 on two migrations and an empty ledger, with a logger and without.
\<close>

theorem C3_count_is_logged_not_returned_witness:
  "result (RunMigrations dbErr memoryDriver [mig 2 ''b'' ''B'', mig 1 ''a'' ''A''] True emptyDb)
     = Returned None
   \<and> (\<exists>pre closeErr. trace (RunMigrations dbErr memoryDriver [mig 2 ''b'' ''B'', mig 1 ''a'' ''A''] True emptyDb)
         = pre @ [LoggedInfo ''applied 2 migrations'', CloseCalled closeErr])
   \<and> result (RunMigrations dbErr memoryDriver [mig 2 ''b'' ''B'', mig 1 ''a'' ''A''] False emptyDb)
     = Returned None
   \<and> filter isLogged
        (trace (RunMigrations dbErr memoryDriver [mig 2 ''b'' ''B'', mig 1 ''a'' ''A''] False emptyDb)) = []"
proof -
  have ok: "result (RunMigrations dbErr memoryDriver [mig 2 ''b'' ''B'', mig 1 ''a'' ''A''] True emptyDb)
              = Returned None"
    by code_simp
  have ok': "result (RunMigrations dbErr memoryDriver [mig 2 ''b'' ''B'', mig 1 ''a'' ''A''] False emptyDb)
              = Returned None"
    by code_simp
  have two: "showInt (int (length (applied (trace
               (RunMigrations dbErr memoryDriver [mig 2 ''b'' ''B'', mig 1 ''a'' ''A''] True emptyDb)))))
             = ''2''"
    by code_simp
  show ?thesis
    using ok ok' C3_count_is_logged_not_returned [OF ok] C3_count_is_logged_not_returned [OF ok']
    unfolding two by simp
qed

text \<open>
  C4. The claim: loading fails with "no migrations found" exactly when the source yields
  no usable entry, a source of subdirectories only failing like an empty one. The length
  test is made on the raw directory listing, before directories are skipped: a source that
  holds one subdirectory loads without error, as the empty list of migrations, in both
  forms of the loader, while the empty source fails.
\<close>

theorem C4_only_subdirectories_load_without_error:
  "LoadMigrationsFromFS (MapFS [(''archive'', Directory)]) False = Inr []
   \<and> LoadMigrationsFromFS (MapFS [(''archive'', Directory)]) True = Inr []
   \<and> LoadPlainMigrationsFromFS (MapFS [(''archive'', Directory)]) = Inr []
   \<and> LoadMigrationsFromFS (MapFS []) False = Inl (New ''no migrations found'')
   \<and> LoadPlainMigrationsFromFS (MapFS []) = Inl (New ''no migrations found'')"
  by (simp add: LoadMigrationsFromFS_def LoadPlainMigrationsFromFS_def MapFS_def)














text \<open>
  C10. After every call of \<open>RunMigrations\<close>, however it ends, the caller's slice holds the
  migrations it held before, in ascending order of \<open>Version\<close>.
\<close>

theorem C10_slice_sorted_in_place:
  "mset (slice (RunMigrations ctxErr driver migrations logger s0)) = mset migrations
   \<and> sorted (map Version (slice (RunMigrations ctxErr driver migrations logger s0)))"
  by (simp add: RunMigrations_slice sortSlice_sorted sortSlice_mset)

end
